theory Spec2Isabelle
  imports Complex_Main "HOL-Library.Sublist"
begin

section \<open>Python values and exceptions\<close>

text \<open>
  The configuration is a Python dictionary with string keys whose values are whatever the
  YAML loader produced.  Scalars are hashable; lists and dictionaries are not.
\<close>

datatype atom = ANone | ABool bool | AInt int | AStr string

datatype pyval = Atom atom | PList "pyval list" | PDict "(string \<times> pyval) list"

type_synonym config = "string \<rightharpoonup> pyval"

text \<open>A raised exception: the name of its class and its message.\<close>

datatype exception = Exception (exc_class: string) (exc_message: string)

definition ValueError :: "string \<Rightarrow> exception" where
  "ValueError m = Exception ''ValueError'' m"

definition TypeError :: "string \<Rightarrow> exception" where
  "TypeError m = Exception ''TypeError'' m"

text \<open>\<open>str\<close> of a hashable scalar, as an f-string field formats it.\<close>

fun str_nat :: "nat \<Rightarrow> string" where
  "str_nat n = (if n < 10 then [char_of (48 + n)]
                else str_nat (n div 10) @ [char_of (48 + n mod 10)])"

declare str_nat.simps [simp del]

fun py_str :: "atom \<Rightarrow> string" where
  "py_str ANone = ''None''"
| "py_str (ABool b) = (if b then ''True'' else ''False'')"
| "py_str (AInt i) = (if i < 0 then CHR ''-'' # str_nat (nat (- i)) else str_nat (nat i))"
| "py_str (AStr s) = s"

text \<open>The type name Python prints when it refuses to hash a value.\<close>

fun type_name :: "pyval \<Rightarrow> string" where
  "type_name (Atom ANone) = ''NoneType''"
| "type_name (Atom (ABool _)) = ''bool''"
| "type_name (Atom (AInt _)) = ''int''"
| "type_name (Atom (AStr _)) = ''str''"
| "type_name (PList _) = ''list''"
| "type_name (PDict _) = ''dict''"

section \<open>The solver registry: \<open>piglot/solver/__init__.py\<close>\<close>

text \<open>
  A backend's \<open>read\<close> factory receives the very dictionary object of the caller, the
  parameter set and the output directory.  It may fail, it may change the dictionary, and it
  may change the rest of the world \<open>'w\<close> (files, processes).  \<open>LinksSolver.read\<close> is not
  part of the files at hand, so it is a parameter.
\<close>

type_synonym ('p, 's, 'w) factory =
  "config \<Rightarrow> 'p \<Rightarrow> string \<Rightarrow> 'w \<Rightarrow> (exception + 's) \<times> config \<times> 'w"

definition AVAILABLE_SOLVERS :: "('p, 's, 'w) factory \<Rightarrow> (string \<rightharpoonup> ('p, 's, 'w) factory)" where
  "AVAILABLE_SOLVERS LinksSolver_read = [''links'' \<mapsto> LinksSolver_read]"

text \<open>
  \<open>name in AVAILABLE_SOLVERS\<close> and \<open>AVAILABLE_SOLVERS[name]\<close>: an unhashable name makes the
  membership test raise \<open>TypeError\<close>; a hashable name that is not a string equals no key.
\<close>

definition registry_find ::
  "(string \<rightharpoonup> 'f) \<Rightarrow> pyval \<Rightarrow> exception + (atom \<times> 'f option)" where
  "registry_find reg name =
     (case name of
        Atom (AStr s) \<Rightarrow> Inr (AStr s, reg s)
      | Atom a \<Rightarrow> Inr (a, None)
      | _ \<Rightarrow> Inl (TypeError (''unhashable type: '' @ [CHR 0x27] @ type_name name @ [CHR 0x27])))"

definition read_solver ::
  "('p, 's, 'w) factory \<Rightarrow> config \<Rightarrow> 'p \<Rightarrow> string \<Rightarrow> 'w \<Rightarrow> (exception + 's) \<times> config \<times> 'w" where
  "read_solver LinksSolver_read config parameters output_dir w =
     (case config ''name'' of
        None \<Rightarrow> (Inl (ValueError ''Missing name for solver.''), config, w)
      | Some name \<Rightarrow>
          let config' = config(''name'' := None) in
          (case registry_find (AVAILABLE_SOLVERS LinksSolver_read) name of
             Inl e \<Rightarrow> (Inl e, config', w)
           | Inr (a, None) \<Rightarrow>
               (Inl (ValueError (''Unknown solver '' @ [CHR 0x27] @ py_str a @ [CHR 0x27] @ ''.'')),
                config', w)
           | Inr (a, Some solver_read) \<Rightarrow> solver_read config' parameters output_dir w))"

text \<open>The registry has a key equal to the name.\<close>

definition registered :: "pyval \<Rightarrow> bool" where
  "registered name = (name = Atom (AStr ''links''))"

fun hashable :: "pyval \<Rightarrow> bool" where
  "hashable (Atom _) = True"
| "hashable _ = False"

text \<open>A factory that counts its invocations in the world and otherwise does nothing.\<close>

definition counting_read :: "(unit, unit, nat) factory" where
  "counting_read c p d n = (Inr (), c, Suc n)"

text \<open>
  What a caller observes of a failed call: the class of the exception, and whether its message
  contains the given text.
\<close>

definition fails_with :: "string \<Rightarrow> string \<Rightarrow> (exception + 's) \<Rightarrow> bool" where
  "fails_with cls txt r =
     (case r of Inl e \<Rightarrow> exc_class e = cls \<and> sublist txt (exc_message e) | Inr _ \<Rightarrow> False)"


section \<open>The surrogate model: \<open>piglot/utils/surrogate.py\<close>\<close>

text \<open>
  The Gaussian-process library is not interpreted.  A tensor of float64 numbers is a list of
  rows over a type \<open>'f\<close> of numbers; the library's constructors are constructors of data
  types that record their arguments, so that a model is known by the class that built it and
  by what it was given.
\<close>

type_synonym 'f tensor = "'f list list"

datatype input_transform = Normalize (transform_d: nat)

datatype outcome_transform = Standardize (transform_m: nat)

datatype 'f gp =
    SingleTaskGP "'f tensor" "'f tensor" input_transform outcome_transform
  | FixedNoiseGP "'f tensor" "'f tensor" "'f tensor" input_transform outcome_transform

text \<open>\<open>gp.likelihood\<close>, an attribute of the model object.\<close>

datatype 'f likelihood = Likelihood_of "'f gp"

datatype 'f mll = ExactMarginalLogLikelihood "'f likelihood" "'f gp"

text \<open>\<open>t.unsqueeze(1)\<close> of a vector: every entry becomes a row of its own.\<close>

definition unsqueeze1 :: "'f list \<Rightarrow> 'f tensor" where
  "unsqueeze1 v = map (\<lambda>a. [a]) v"

definition zeros_like :: "('f::zero) tensor \<Rightarrow> 'f tensor" where
  "zeros_like t = map (map (\<lambda>_. 0)) t"

text \<open>
  \<open>fit_gpytorch_mll\<close> belongs to the library: it is a parameter.  A call works on the world
  \<open>'w\<close> (random numbers, optimiser state) and either raises or leaves the model fitted, the
  fitted state being a value of \<open>'h\<close>.  \<open>get_model\<close> returns the model object it built,
  which the fit has updated in place: the pair of the model and its fitted state.
\<close>

type_synonym ('f, 'h, 'w) fitter = "'f mll \<Rightarrow> 'w \<Rightarrow> (exception + 'h) \<times> 'w"

text \<open>Lines 36 to 61: the model that is built, before it is fitted.\<close>

definition get_model_gp :: "('f::zero) tensor \<Rightarrow> 'f list \<Rightarrow> 'f list option \<Rightarrow> bool \<Rightarrow> 'f gp" where
  "get_model_gp x_data y_data var_data noisy =
     (let x = x_data; y = unsqueeze1 y_data in
      if noisy then SingleTaskGP x y (Normalize 1) (Standardize 1)
      else (case var_data of
              None \<Rightarrow> FixedNoiseGP x y (zeros_like y) (Normalize 1) (Standardize 1)
            | Some var \<Rightarrow> FixedNoiseGP x y (unsqueeze1 var) (Normalize 1) (Standardize 1)))"

definition get_model ::
  "('f, 'h, 'w) fitter \<Rightarrow> ('f::zero) tensor \<Rightarrow> 'f list \<Rightarrow> 'f list option \<Rightarrow> bool \<Rightarrow> 'w
     \<Rightarrow> (exception + 'f gp \<times> 'h) \<times> 'w" where
  "get_model fit_gpytorch_mll x_data y_data var_data noisy w =
     (let gp = get_model_gp x_data y_data var_data noisy;
          mll = ExactMarginalLogLikelihood (Likelihood_of gp) gp in
      case fit_gpytorch_mll mll w of
        (Inl e, w') \<Rightarrow> (Inl e, w')
      | (Inr h, w') \<Rightarrow> (Inr (gp, h), w'))"











section \<open>The driver: \<open>piglot/bin/piglot.py\<close>\<close>

subsection \<open>Paths and the file system\<close>

text \<open>
  A path is the list of its components, resolved from the working directory; a file system
  maps the paths that exist to a directory or to a file with its contents.  Symbolic links,
  permissions, \<open>..\<close> components and failures of the device are not modelled.  An error of the
  operating system carries its class, and the path as its message.
\<close>

type_synonym path = "string list"

datatype node = Dir | File string

type_synonym fs = "path \<rightharpoonup> node"

fun split_on :: "char \<Rightarrow> string \<Rightarrow> string list" where
  "split_on c [] = [[]]"
| "split_on c (x # xs) =
     (if x = c then [] # split_on c xs
      else (case split_on c xs of [] \<Rightarrow> [[x]] | w # ws \<Rightarrow> (x # w) # ws))"

definition path_of :: "string \<Rightarrow> path" where
  "path_of s = filter (\<lambda>w. w \<noteq> [] \<and> w \<noteq> ''.'') (split_on CHR ''/'' s)"

text \<open>\<open>os.path.join(a, b)\<close>.\<close>

definition os_path_join :: "string \<Rightarrow> string \<Rightarrow> string" where
  "os_path_join a b =
     (if b \<noteq> [] \<and> hd b = CHR ''/'' then b
      else if a = [] \<or> last a = CHR ''/'' then a @ b
      else a @ ''/'' @ b)"

text \<open>A path is a directory when every component on the way, and the last, is one.\<close>

definition isdir :: "fs \<Rightarrow> path \<Rightarrow> bool" where
  "isdir f p = list_all (\<lambda>q. f q = Some Dir) (tl (prefixes p))"

text \<open>The class of the error that resolving the given chain of paths meets first, if any.\<close>

fun walk_error :: "fs \<Rightarrow> path list \<Rightarrow> string option" where
  "walk_error f [] = None"
| "walk_error f (q # qs) =
     (case f q of
        Some Dir \<Rightarrow> walk_error f qs
      | Some (File _) \<Rightarrow> Some ''NotADirectoryError''
      | None \<Rightarrow> Some ''FileNotFoundError'')"

text \<open>\<open>os.path.isdir(s)\<close>: the empty string names nothing.\<close>

definition os_path_isdir :: "fs \<Rightarrow> string \<Rightarrow> bool" where
  "os_path_isdir f s = (s \<noteq> [] \<and> isdir f (path_of s))"

text \<open>
  \<open>shutil.rmtree(s)\<close>: the directory goes with everything below it.  The working directory
  itself cannot be removed: its contents go and the call fails.
\<close>

definition shutil_rmtree :: "fs \<Rightarrow> string \<Rightarrow> (exception + unit) \<times> fs" where
  "shutil_rmtree f s =
     (let p = path_of s in
      if \<not> os_path_isdir f s then
        (Inl (Exception (case walk_error f (tl (prefixes p)) of
                           Some c \<Rightarrow> c | None \<Rightarrow> ''FileNotFoundError'') s), f)
      else if p = [] then (Inl (Exception ''OSError'' s), (\<lambda>q. if q = [] then f q else None))
      else (Inr (), (\<lambda>q. if prefix p q then None else f q)))"

text \<open>
  \<open>os.makedirs(s, exist_ok=True)\<close> goes down the path and creates every directory that is
  missing.  A file on the way is an error, and so is a file at the end.
\<close>

fun mkdirs_from :: "string \<Rightarrow> fs \<Rightarrow> path list \<Rightarrow> exception + fs" where
  "mkdirs_from s f [] = Inr f"
| "mkdirs_from s f (q # qs) =
     (case f q of
        Some Dir \<Rightarrow> mkdirs_from s f qs
      | Some (File _) \<Rightarrow>
          Inl (Exception (if qs = [] then ''FileExistsError'' else ''NotADirectoryError'') s)
      | None \<Rightarrow> mkdirs_from s (f(q \<mapsto> Dir)) qs)"

definition os_makedirs :: "fs \<Rightarrow> string \<Rightarrow> (exception + unit) \<times> fs" where
  "os_makedirs f s =
     (if s = [] then (Inl (Exception ''FileNotFoundError'' s), f)
      else (case mkdirs_from s f (tl (prefixes (path_of s))) of
              Inl e \<Rightarrow> (Inl e, f)
            | Inr f' \<Rightarrow> (Inr (), f')))"

text \<open>
  \<open>with open(s, 'w', encoding='utf8') as file: file.write(text)\<close>: the file is created or
  truncated and holds the text afterwards.
\<close>

definition open_write :: "string \<Rightarrow> fs \<Rightarrow> string \<Rightarrow> (exception + unit) \<times> fs" where
  "open_write text f s =
     (let p = path_of s in
      if s = [] then (Inl (Exception ''FileNotFoundError'' s), f)
      else if p = [] \<or> (isdir f (butlast p) \<and> f p = Some Dir) then
        (Inl (Exception ''IsADirectoryError'' s), f)
      else (case walk_error f (tl (prefixes (butlast p))) of
              Some c \<Rightarrow> (Inl (Exception c s), f)
            | None \<Rightarrow> (Inr (), f(p \<mapsto> File text))))"

subsection \<open>The state of a run\<close>

text \<open>
  \<open>cfg\<close> is the dictionary that the variable \<open>config\<close> of \<open>main\<close> refers to, once it is
  bound; \<open>files\<close> is the file system; \<open>ext\<close> is everything else that the parts of piglot
  outside this file work on.  Those parts get the dictionary itself, not a copy, so whatever
  they do is a change of the whole state.
\<close>

record 'x state =
  cfg :: config
  files :: fs
  ext :: 'x

type_synonym ('a, 'x) action = "'x state \<Rightarrow> (exception + 'a) \<times> 'x state"

definition seq :: "('a, 'x) action \<Rightarrow> ('a \<Rightarrow> ('b, 'x) action) \<Rightarrow> ('b, 'x) action" where
  "seq act k s = (case act s of (Inl e, s') \<Rightarrow> (Inl e, s') | (Inr a, s') \<Rightarrow> k a s')"

definition ret :: "'a \<Rightarrow> ('a, 'x) action" where
  "ret a s = (Inr a, s)"

definition on_files :: "(fs \<Rightarrow> (exception + unit) \<times> fs) \<Rightarrow> (unit, 'x) action" where
  "on_files opn s = (case opn (files s) of (r, f') \<Rightarrow> (r, s\<lparr>files := f'\<rparr>))"

text \<open>\<open>config[key]\<close>.\<close>

definition getitem :: "string \<Rightarrow> (pyval, 'x) action" where
  "getitem key s =
     (case cfg s key of
        None \<Rightarrow> (Inl (Exception ''KeyError'' ([CHR 0x27] @ key @ [CHR 0x27])), s)
      | Some v \<Rightarrow> (Inr v, s))"

text \<open>The truth value of a Python value, as \<open>not\<close> takes it.\<close>

fun truthy :: "pyval \<Rightarrow> bool" where
  "truthy (Atom ANone) = False"
| "truthy (Atom (ABool b)) = b"
| "truthy (Atom (AInt i)) = (i \<noteq> 0)"
| "truthy (Atom (AStr s)) = (s \<noteq> [])"
| "truthy (PList xs) = (xs \<noteq> [])"
| "truthy (PDict kvs) = (kvs \<noteq> [])"

text \<open>
  The parts of piglot and of its libraries that \<open>main\<close> calls and that are not in this file.
  Python objects (the parameter set, the objective, the optimiser, the stop criteria, the best
  parameters, a normalised point) are values of one type \<open>'o\<close>.  \<open>optimise\<close> stands for
  the call of \<open>optimiser.optimise\<close> followed by the unpacking of its result, of which \<open>main\<close>
  keeps the second component, the best parameters; \<open>normalise\<close> for \<open>parameters.normalise\<close>;
  \<open>call_objective\<close> for the call of the objective object.
\<close>

record ('o, 'x) env =
  argparse_parse_args :: "(string, 'x) action"
  parse_config_file :: "string \<Rightarrow> (config, 'x) action"
  safe_dump :: "config \<Rightarrow> string"
  parse_parameters :: "('o, 'x) action"
  read_objective :: "pyval \<Rightarrow> 'o \<Rightarrow> string \<Rightarrow> ('o, 'x) action"
  read_optimiser :: "pyval \<Rightarrow> 'o \<Rightarrow> ('o, 'x) action"
  parse_stop_criteria :: "('o, 'x) action"
  optimise :: "'o \<Rightarrow> pyval \<Rightarrow> 'o \<Rightarrow> string \<Rightarrow> bool \<Rightarrow> 'o \<Rightarrow> ('o, 'x) action"
  normalise :: "'o \<Rightarrow> 'o \<Rightarrow> ('o, 'x) action"
  call_objective :: "'o \<Rightarrow> 'o \<Rightarrow> ('o, 'x) action"

subsection \<open>\<open>main\<close>, block by block\<close>

text \<open>\<open>parse_args\<close>: the argument parser of the library gives the one positional argument.\<close>

definition parse_args :: "('o, 'x) env \<Rightarrow> (string, 'x) action" where
  "parse_args E = argparse_parse_args E"

text \<open>
  Lines 42 to 48, ``build output directory with a copy of the configuration file''.  A value
  of \<open>output\<close> that is not a string is refused by the path functions before anything is
  touched.
\<close>

definition main_output_dir :: "('o, 'x) env \<Rightarrow> (string, 'x) action" where
  "main_output_dir E =
     seq (getitem ''output'') (\<lambda>v.
       case v of
         Atom (AStr output_dir) \<Rightarrow>
           seq (\<lambda>s. if os_path_isdir (files s) output_dir
                     then on_files (\<lambda>f. shutil_rmtree f output_dir) s
                     else ret () s) (\<lambda>_.
           seq (on_files (\<lambda>f. os_makedirs f output_dir)) (\<lambda>_.
           seq (\<lambda>s. on_files (\<lambda>f. open_write (safe_dump E (cfg s)) f
                                       (os_path_join output_dir ''config'')) s) (\<lambda>_.
           ret output_dir)))
       | Atom (AInt _) \<Rightarrow>
           (\<lambda>s. (Inl (TypeError (''expected str, bytes or os.PathLike object, not '' @ type_name v)), s))
       | Atom (ABool _) \<Rightarrow>
           (\<lambda>s. (Inl (TypeError (''expected str, bytes or os.PathLike object, not '' @ type_name v)), s))
       | _ \<Rightarrow>
           (\<lambda>s. (Inl (TypeError (''stat: path should be string, bytes, os.PathLike or integer, not ''
                                  @ type_name v)), s)))"

text \<open>Lines 49 to 53, ``build piglot problem'': parameters, objective, optimiser, stop.\<close>

definition main_problem :: "('o, 'x) env \<Rightarrow> string \<Rightarrow> ('o \<times> 'o \<times> 'o \<times> 'o, 'x) action" where
  "main_problem E output_dir =
     seq (parse_parameters E) (\<lambda>parameters.
     seq (getitem ''objective'') (\<lambda>c_objective.
     seq (read_objective E c_objective parameters output_dir) (\<lambda>objective.
     seq (getitem ''optimiser'') (\<lambda>c_optimiser.
     seq (read_optimiser E c_optimiser objective) (\<lambda>optimiser.
     seq (parse_stop_criteria E) (\<lambda>stop.
     ret (parameters, objective, optimiser, stop)))))))"

text \<open>Lines 54 to 61, ``run the optimisation'': the best parameters are kept.\<close>

definition main_optimise :: "('o, 'x) env \<Rightarrow> string \<Rightarrow> 'o \<Rightarrow> 'o \<Rightarrow> 'o \<Rightarrow> ('o, 'x) action" where
  "main_optimise E output_dir parameters optimiser stop =
     seq (getitem ''iters'') (\<lambda>iters.
     seq (getitem ''quiet'') (\<lambda>quiet.
     optimise E optimiser iters parameters output_dir (\<not> truthy quiet) stop))"

text \<open>Lines 62 to 64, ``re-run the best case''.\<close>

definition main_last_run :: "('o, 'x) env \<Rightarrow> 'o \<Rightarrow> 'o \<Rightarrow> 'o \<Rightarrow> (unit, 'x) action" where
  "main_last_run E parameters objective best_params s =
     (if ''skip_last_run'' \<notin> dom (cfg s)
      then seq (normalise E parameters best_params) (\<lambda>x.
           seq (call_objective E objective x) (\<lambda>_. ret ())) s
      else ret () s)"

definition main :: "('o, 'x) env \<Rightarrow> (unit, 'x) action" where
  "main E =
     seq (parse_args E) (\<lambda>args_config.
     seq (parse_config_file E args_config) (\<lambda>config.
     seq (\<lambda>s. ret () (s\<lparr>cfg := config\<rparr>)) (\<lambda>_.
     seq (main_output_dir E) (\<lambda>output_dir.
     seq (main_problem E output_dir) (\<lambda>(parameters, objective, optimiser, stop).
     seq (main_optimise E output_dir parameters optimiser stop) (\<lambda>best_params.
     main_last_run E parameters objective best_params))))))"

text \<open>
  A small world to run \<open>main\<close> in.  Objects are numbers, the rest of the world is the list of
  the points the objective has been called on, and the optimiser evaluates nothing: it
  returns the object 7 as the best parameters, which \<open>normalise\<close> turns into 8.
\<close>

definition test_env :: "config \<Rightarrow> (nat, nat list) env" where
  "test_env c =
     \<lparr> argparse_parse_args = ret ''config.yaml'',
       parse_config_file = (\<lambda>_. ret c),
       safe_dump = (\<lambda>_. ''dumped''),
       parse_parameters = ret 1,
       read_objective = (\<lambda>_ _ _. ret 2),
       read_optimiser = (\<lambda>_ _. ret 3),
       parse_stop_criteria = ret 4,
       optimise = (\<lambda>_ _ _ _ _ _. ret 7),
       normalise = (\<lambda>_ b. ret (Suc b)),
       call_objective = (\<lambda>_ x s. (Inr 0, s\<lparr>ext := ext s @ [x]\<rparr>)) \<rparr>"

definition test_config :: config where
  "test_config =
     [''output'' \<mapsto> Atom (AStr ''out''), ''objective'' \<mapsto> PDict [], ''optimiser'' \<mapsto> Atom (AStr ''botorch''),
      ''iters'' \<mapsto> Atom (AInt 10), ''quiet'' \<mapsto> Atom (ABool False)]"

definition empty_state :: "nat list state" where
  "empty_state = \<lparr> cfg = Map.empty, files = Map.empty, ext = [] \<rparr>"
section \<open>Properties of the registry\<close>

lemma registry_find_unregistered_atom:
  "\<not> registered (Atom a) \<Longrightarrow> registry_find (AVAILABLE_SOLVERS r) (Atom a) = Inr (a, None)"
  by (cases a) (auto simp: registry_find_def AVAILABLE_SOLVERS_def registered_def)

lemma registry_find_links:
  "registry_find (AVAILABLE_SOLVERS r) (Atom (AStr ''links'')) = Inr (AStr ''links'', Some r)"
  by (simp add: registry_find_def AVAILABLE_SOLVERS_def)

lemma registry_find_unhashable:
  "\<not> hashable name \<Longrightarrow>
   registry_find reg name =
     Inl (TypeError (''unhashable type: '' @ [CHR 0x27] @ type_name name @ [CHR 0x27]))"
  by (cases name) (auto simp: registry_find_def)

lemma read_solver_unknown_atom:
  assumes "config ''name'' = Some (Atom a)" and "\<not> registered (Atom a)"
  shows "read_solver r config p d w =
           (Inl (ValueError (''Unknown solver '' @ [CHR 0x27] @ py_str a @ [CHR 0x27] @ ''.'')),
            config(''name'' := None), w)"
  using assms by (simp add: read_solver_def registry_find_unregistered_atom)


lemma read_solver_unhashable:
  assumes "config ''name'' = Some name" and "\<not> hashable name"
  shows "read_solver r config p d w =
           (Inl (TypeError (''unhashable type: '' @ [CHR 0x27] @ type_name name @ [CHR 0x27])),
            config(''name'' := None), w)"
  using assms by (simp add: read_solver_def registry_find_unhashable)

lemma read_solver_links:
  assumes "config ''name'' = Some (Atom (AStr ''links''))"
  shows "read_solver r config p d w = r (config(''name'' := None)) p d w"
  using assms by (simp add: read_solver_def registry_find_links)


subsection \<open>C2: an unknown solver name\<close>

text \<open>
  C2, as stated, fails.  For the name \<open>nonexistent\<close> the exception raised is a \<open>ValueError\<close>,
  not a \<open>ConfigurationError\<close> (the code has no such class).  And for a name that is a list,
  which is no key of the registry either, the membership test itself raises a \<open>TypeError\<close>
  whose message does not contain the name.
\<close>

theorem C2_unknown_name_counterexample:
  "\<not> fails_with ''ConfigurationError'' ''nonexistent''
       (fst (read_solver counting_read [''name'' \<mapsto> Atom (AStr ''nonexistent'')] () ''out'' 0))
   \<and> fails_with ''TypeError'' ''unhashable type''
       (fst (read_solver counting_read [''name'' \<mapsto> PList [Atom (AStr ''nonexistent'')]] () ''out'' 0))
   \<and> \<not> fails_with ''TypeError'' ''nonexistent''
       (fst (read_solver counting_read [''name'' \<mapsto> PList [Atom (AStr ''nonexistent'')]] () ''out'' 0))"
proof -
  have a: "fst (read_solver counting_read [''name'' \<mapsto> Atom (AStr ''nonexistent'')] () ''out'' 0)
             = Inl (ValueError (''Unknown solver '' @ [CHR 0x27] @ ''nonexistent'' @ [CHR 0x27] @ ''.''))"
    by (simp add: read_solver_unknown_atom registered_def)
  have b: "fst (read_solver counting_read [''name'' \<mapsto> PList [Atom (AStr ''nonexistent'')]] () ''out'' 0)
             = Inl (TypeError (''unhashable type: '' @ [CHR 0x27] @ ''list'' @ [CHR 0x27]))"
    by (simp add: read_solver_unhashable)
  have c: "\<not> sublist ''nonexistent'' (''unhashable type: '' @ [CHR 0x27] @ ''list'' @ [CHR 0x27])"
    by code_simp
  have d: "sublist ''unhashable type'' (''unhashable type: '' @ [CHR 0x27] @ ''list'' @ [CHR 0x27])"
    by code_simp
  show ?thesis
    unfolding a b using c d by (simp add: fails_with_def ValueError_def TypeError_def)
qed

text \<open>
  C2, amended: for every configuration whose solver name is a hashable value that is not a key
  of the registry, \<open>read_solver\<close> fails with a \<open>ValueError\<close> whose message
  \<open>Unknown solver '<name>'.\<close> contains the name as \<open>str\<close> prints it; the name has been
  popped from the dictionary, and the world is as it was whatever the backend factory would
  do, so no factory has been invoked.
\<close>

theorem C2_unknown_name:
  assumes "config ''name'' = Some (Atom a)" and "\<not> registered (Atom a)"
  shows "read_solver r config p d w =
           (Inl (ValueError (''Unknown solver '' @ [CHR 0x27] @ py_str a @ [CHR 0x27] @ ''.'')),
            config(''name'' := None), w)
         \<and> fails_with ''ValueError'' (py_str a) (fst (read_solver r config p d w))"
proof -
  have eq: "read_solver r config p d w =
           (Inl (ValueError (''Unknown solver '' @ [CHR 0x27] @ py_str a @ [CHR 0x27] @ ''.'')),
            config(''name'' := None), w)"
    using assms by (rule read_solver_unknown_atom)
  have "sublist (py_str a) (''Unknown solver '' @ [CHR 0x27] @ py_str a @ [CHR 0x27] @ ''.'')"
    using sublist_appendI [of "py_str a" "''Unknown solver '' @ [CHR 0x27]" "[CHR 0x27] @ ''.''"]
    by simp
  then show ?thesis
    unfolding eq by (simp add: fails_with_def ValueError_def)
qed

theorem C2_unknown_name_witness:
  "[''name'' \<mapsto> Atom (AStr ''nonexistent'')] ''name'' = Some (Atom (AStr ''nonexistent''))
   \<and> \<not> registered (Atom (AStr ''nonexistent''))
   \<and> read_solver counting_read [''name'' \<mapsto> Atom (AStr ''nonexistent'')] () ''out'' 0 =
       (Inl (Exception ''ValueError'' (''Unknown solver '' @ [CHR 0x27] @ ''nonexistent'' @ [CHR 0x27] @ ''.'')),
        Map.empty, 0)
   \<and> fails_with ''ValueError'' ''nonexistent''
        (fst (read_solver counting_read [''name'' \<mapsto> Atom (AStr ''nonexistent'')] () ''out'' 0))"
proof -
  have h1: "[''name'' \<mapsto> Atom (AStr ''nonexistent'')] ''name'' = Some (Atom (AStr ''nonexistent''))"
    by simp
  have h2: "\<not> registered (Atom (AStr ''nonexistent''))"
    by (simp add: registered_def)
  note t = C2_unknown_name [where config = "[''name'' \<mapsto> Atom (AStr ''nonexistent'')]"
          and a = "AStr ''nonexistent''" and r = counting_read and p = "()" and d = "''out''"
          and w = 0, OF h1 h2]
  have e: "read_solver counting_read [''name'' \<mapsto> Atom (AStr ''nonexistent'')] () ''out'' 0 =
       (Inl (Exception ''ValueError'' (''Unknown solver '' @ [CHR 0x27] @ ''nonexistent'' @ [CHR 0x27] @ ''.'')),
        Map.empty, 0)"
    using t [THEN conjunct1] by (simp add: ValueError_def)
  have f: "fails_with ''ValueError'' ''nonexistent''
        (fst (read_solver counting_read [''name'' \<mapsto> Atom (AStr ''nonexistent'')] () ''out'' 0))"
    using t [THEN conjunct2] by simp
  from h1 h2 e f show ?thesis
    by blast
qed

subsection \<open>C6: a configuration without a name\<close>

text \<open>
  C6, as stated, fails: on the empty configuration the exception raised is a \<open>ValueError\<close>,
  not a \<open>ConfigurationError\<close>.
\<close>

theorem C6_missing_name_counterexample:
  "fst (read_solver counting_read Map.empty () ''out'' 0)
     = Inl (Exception ''ValueError'' ''Missing name for solver.'')
   \<and> \<not> fails_with ''ConfigurationError'' ''''
         (fst (read_solver counting_read Map.empty () ''out'' 0))"
  by (simp add: read_solver_def fails_with_def ValueError_def)

text \<open>
  C6, amended: if the solver configuration lacks the key \<open>name\<close>, \<open>read_solver\<close> raises a
  \<open>ValueError\<close> with the message \<open>Missing name for solver.\<close>; the dictionary and the world
  are as they were whatever the backend factory would do, so no factory has been called and
  nothing has run.
\<close>

theorem C6_missing_name:
  assumes "config ''name'' = None"
  shows "read_solver r config p d w = (Inl (ValueError ''Missing name for solver.''), config, w)"
  using assms by (simp add: read_solver_def)

theorem C6_missing_name_witness:
  "[''links'' \<mapsto> Atom (AStr ''/usr/bin/links'')] ''name'' = None
   \<and> read_solver counting_read [''links'' \<mapsto> Atom (AStr ''/usr/bin/links'')] () ''out'' 0
       = (Inl (Exception ''ValueError'' ''Missing name for solver.''),
          [''links'' \<mapsto> Atom (AStr ''/usr/bin/links'')], 0)"
proof -
  have h: "[''links'' \<mapsto> Atom (AStr ''/usr/bin/links'')] ''name'' = None"
    by simp
  show ?thesis
    using C6_missing_name [where config = "[''links'' \<mapsto> Atom (AStr ''/usr/bin/links'')]"
          and r = counting_read and p = "()" and d = "''out''" and w = 0, OF h] h
    by (simp add: ValueError_def)
qed

subsection \<open>C9: the name is popped from the caller's dictionary\<close>

text \<open>
  C9: whenever the dictionary has a key \<open>name\<close>, \<open>read_solver\<close> removes it.  If the lookup
  fails, the caller is left with the dictionary without \<open>name\<close> and all other entries as they
  were.  If the lookup succeeds, the backend factory receives exactly that dictionary
  (\<open>name\<close> removed, every other key unchanged) and its outcome is the outcome of the call; so,
  unless the factory itself puts the key back, the caller's dictionary no longer has \<open>name\<close>.
\<close>

theorem C9_name_popped:
  assumes "config ''name'' = Some name"
  shows "(registered name \<longrightarrow>
            read_solver r config p d w = r (config(''name'' := None)) p d w)
       \<and> (\<not> registered name \<longrightarrow>
            fst (snd (read_solver r config p d w)) = config(''name'' := None))
       \<and> (registered name \<and> fst (snd (r (config(''name'' := None)) p d w)) = config(''name'' := None) \<longrightarrow>
            fst (snd (read_solver r config p d w)) ''name'' = None)
       \<and> (config(''name'' := None)) ''name'' = None
       \<and> (\<forall>k. k \<noteq> ''name'' \<longrightarrow> (config(''name'' := None)) k = config k)"
proof -
  have reg: "read_solver r config p d w = r (config(''name'' := None)) p d w" if "registered name"
    using that assms by (simp add: registered_def read_solver_links)
  have unreg: "fst (snd (read_solver r config p d w)) = config(''name'' := None)"
    if "\<not> registered name"
  proof (cases name)
    case (Atom a)
    then show ?thesis
      using that assms by (simp add: read_solver_unknown_atom)
  next
    case (PList xs)
    then show ?thesis
      using assms by (simp add: read_solver_unhashable)
  next
    case (PDict kvs)
    then show ?thesis
      using assms by (simp add: read_solver_unhashable)
  qed
  show ?thesis
    using reg unreg by simp
qed

theorem C9_name_popped_witness:
  "[''name'' \<mapsto> Atom (AStr ''links''), ''links'' \<mapsto> Atom (AStr ''/usr/bin/links'')] ''name''
      = Some (Atom (AStr ''links''))
   \<and> registered (Atom (AStr ''links''))
   \<and> read_solver counting_read
        [''name'' \<mapsto> Atom (AStr ''links''), ''links'' \<mapsto> Atom (AStr ''/usr/bin/links'')] () ''out'' 0
      = (Inr (), [''links'' \<mapsto> Atom (AStr ''/usr/bin/links'')], 1)"
proof -
  let ?c = "[''name'' \<mapsto> Atom (AStr ''links''), ''links'' \<mapsto> Atom (AStr ''/usr/bin/links'')]"
  have h: "?c ''name'' = Some (Atom (AStr ''links''))"
    by simp
  have r: "registered (Atom (AStr ''links''))"
    by (simp add: registered_def)
  have m: "?c(''name'' := None) = [''links'' \<mapsto> Atom (AStr ''/usr/bin/links'')]"
    by (rule ext) simp
  show ?thesis
    using C9_name_popped [where config = ?c and name = "Atom (AStr ''links'')"
          and r = counting_read and p = "()" and d = "''out''" and w = 0, OF h] r m
    by (simp add: counting_read_def)
qed

section \<open>Properties of the surrogate model\<close>




subsection \<open>C4: the two fitting modes\<close>



subsection \<open>C10: variances are ignored by the noise-inferring mode\<close>

text \<open>
  C10: with \<open>noisy\<close> true, \<open>get_model\<close> does the same whether variances are supplied or not:
  the same model is built, the same fit is run on it and the same result is returned.
\<close>

theorem C10_noisy_ignores_variances:
  "get_model fit x y (Some v) True w = get_model fit x y None True w
   \<and> get_model_gp x y (Some v) True = get_model_gp x y None True"
  by (simp add: get_model_def get_model_gp_def)

subsection \<open>C5: the transforms stored in the model\<close>



subsection \<open>C3: a failed fit\<close>



section \<open>Properties of the driver\<close>

subsection \<open>Paths\<close>

lemma split_on_not_Nil: "split_on c s \<noteq> []"
  by (induction s) (auto split: list.splits)

lemma split_on_append: "split_on c (a @ c # b) = split_on c a @ split_on c b"
proof (induction a)
  case Nil
  show ?case by simp
next
  case (Cons x a)
  obtain w ws where w: "split_on c a = w # ws"
    using split_on_not_Nil [of c a] by (cases "split_on c a") auto
  show ?case
    using Cons w by simp
qed

lemma split_on_no_separator: "c \<notin> set b \<Longrightarrow> split_on c b = [b]"
  by (induction b) auto

lemma path_of_append:
  "path_of (a @ CHR ''/'' # b) = path_of a @ path_of b"
  by (simp add: path_of_def split_on_append)

lemma path_of_config: "path_of ''config'' = [''config'']"
  by (simp add: path_of_def)

lemma path_of_Nil: "path_of [] = []"
  by (simp add: path_of_def)

lemma path_of_join_config:
  "path_of (os_path_join out ''config'') = path_of out @ [''config'']"
proof (cases "out = [] \<or> last out = CHR ''/''")
  case False
  then show ?thesis
    by (simp add: os_path_join_def path_of_append path_of_config)
next
  case True
  show ?thesis
  proof (cases "out = []")
    case True
    then show ?thesis
      by (simp add: os_path_join_def path_of_config path_of_Nil)
  next
    case False
    with True have "out = butlast out @ [CHR ''/'']"
      by (metis append_butlast_last_id)
    then obtain a where a: "out = a @ [CHR ''/'']" ..
    have "path_of out = path_of a"
      using path_of_append [of a "[]"] a by (simp add: path_of_Nil)
    moreover have "path_of (out @ ''config'') = path_of a @ [''config'']"
      using path_of_append [of a "''config''"] a by (simp add: path_of_config)
    ultimately show ?thesis
      using a by (simp add: os_path_join_def)
  qed
qed

subsection \<open>Creating directories\<close>

lemma mkdirs_from_append:
  "\<forall>q \<in> set qs. f q = Some Dir \<Longrightarrow> mkdirs_from s f (qs @ rs) = mkdirs_from s f rs"
  by (induction qs) auto

lemma mkdirs_from_result:
  "mkdirs_from s f qs = Inr f' \<Longrightarrow>
     (\<forall>q \<in> set qs. f' q = Some Dir) \<and> (\<forall>q. q \<notin> set qs \<longrightarrow> f' q = f q)
     \<and> (\<forall>q. f q = Some Dir \<longrightarrow> f' q = Some Dir)"
proof (induction qs arbitrary: f)
  case Nil
  then show ?case by simp
next
  case (Cons q qs)
  show ?case
  proof (cases "f q")
    case None
    with Cons.prems have "mkdirs_from s (f(q \<mapsto> Dir)) qs = Inr f'" by simp
    from Cons.IH [OF this] show ?thesis
      by (auto split: if_splits)
  next
    case (Some n)
    show ?thesis
    proof (cases n)
      case Dir
      with Some Cons.prems have "mkdirs_from s f qs = Inr f'" by simp
      from Cons.IH [OF this] Some Dir show ?thesis
        by auto
    next
      case (File t)
      with Some Cons.prems show ?thesis by simp
    qed
  qed
qed

lemma tl_prefixes_snoc: "tl (prefixes (p @ [c])) = tl (prefixes p) @ [p @ [c]]"
  by (cases "prefixes p") simp_all


lemma isdir_snoc: "isdir f (p @ [c]) \<longleftrightarrow> isdir f p \<and> f (p @ [c]) = Some Dir"
  by (simp add: isdir_def tl_prefixes_snoc)

lemma isdir_walk_error: "isdir f p \<Longrightarrow> walk_error f (tl (prefixes p)) = None"
proof -
  have "\<forall>q \<in> set qs. f q = Some Dir \<Longrightarrow> walk_error f qs = None" for qs
    by (induction qs) auto
  then show "isdir f p \<Longrightarrow> walk_error f (tl (prefixes p)) = None"
    by (simp add: isdir_def list_all_iff)
qed


subsection \<open>The output directory\<close>



lemma open_write_in_dir:
  assumes "isdir g p" and "g (p @ [c]) \<noteq> Some Dir" and "path_of s = p @ [c]"
  shows "open_write text g s = (Inr (), g(p @ [c] \<mapsto> File text))"
proof -
  from assms(3) have "s \<noteq> []"
    by (auto simp: path_of_Nil)
  then show ?thesis
    using assms by (simp add: open_write_def isdir_walk_error)
qed


lemma os_makedirs_result:
  assumes "os_makedirs g s = (Inr u, g')"
  shows "isdir g' (path_of s)"
proof -
  from assms have "mkdirs_from s g (tl (prefixes (path_of s))) = Inr g'"
    by (auto simp: os_makedirs_def split: if_splits sum.splits)
  from mkdirs_from_result [OF this] show ?thesis
    by (simp add: isdir_def list_all_iff)
qed




lemma main_output_dir_fresh:
  assumes c: "cfg s ''output'' = Some (Atom (AStr out))"
    and p: "path_of out = p' @ [n]"
    and parent: "isdir (files s) p'"
    and fresh: "files s (p' @ [n]) = None" "files s (p' @ [n, ''config'']) \<noteq> Some Dir"
  shows "main_output_dir E s =
           (Inr out, s\<lparr>files := (files s)(p' @ [n] \<mapsto> Dir,
                                             p' @ [n, ''config''] \<mapsto> File (safe_dump E (cfg s)))\<rparr>)"
proof -
  let ?f2 = "(files s)(p' @ [n] \<mapsto> Dir)"
  from p have out: "out \<noteq> []"
    by (auto simp: path_of_Nil)
  have nd: "\<not> os_path_isdir (files s) out"
    using fresh(1) by (simp add: os_path_isdir_def p isdir_snoc)
  have "\<forall>q \<in> set (tl (prefixes p')). files s q = Some Dir"
    using parent by (simp add: isdir_def list_all_iff)
  then have "mkdirs_from out (files s) (tl (prefixes p') @ [p' @ [n]])
               = mkdirs_from out (files s) [p' @ [n]]"
    by (rule mkdirs_from_append)
  then have mk: "os_makedirs (files s) out = (Inr (), ?f2)"
    using out fresh(1) by (simp add: os_makedirs_def p tl_prefixes_snoc)
  have "isdir ?f2 (path_of out)"
    using mk by (rule os_makedirs_result)
  then have "isdir ?f2 (p' @ [n])"
    by (simp add: p)
  then have "open_write (safe_dump E (cfg s)) ?f2 (os_path_join out ''config'')
               = (Inr (), ?f2((p' @ [n]) @ [''config''] \<mapsto> File (safe_dump E (cfg s))))"
    by (rule open_write_in_dir) (use fresh(2) in \<open>simp_all add: path_of_join_config p\<close>)
  then show ?thesis
    using c nd mk
    by (simp add: main_output_dir_def seq_def getitem_def ret_def on_files_def)
qed

lemma seq_ret: "seq (ret a) k s = k a s"
  by (simp add: seq_def ret_def)

lemma main_unfold:
  "main E s0 =
     seq (parse_args E) (\<lambda>args_config.
     seq (parse_config_file E args_config) (\<lambda>config s1.
       case main_output_dir E (s1\<lparr>cfg := config\<rparr>) of
         (Inl e, s2) \<Rightarrow> (Inl e, s2)
       | (Inr output_dir, s2) \<Rightarrow>
           seq (main_problem E output_dir) (\<lambda>(parameters, objective, optimiser, stop).
           seq (main_optimise E output_dir parameters optimiser stop)
               (main_last_run E parameters objective)) s2)) s0"
  by (simp add: main_def seq_def ret_def split: prod.splits sum.splits)

lemma path_of_out: "path_of ''out'' = [] @ [''out'']"
  by (simp add: path_of_def)

lemma test_env_run:
  assumes "cfg s ''objective'' = Some vo" "cfg s ''optimiser'' = Some vp"
    "cfg s ''iters'' = Some vi" "cfg s ''quiet'' = Some vq"
  shows "seq (main_problem (test_env c) d) (\<lambda>(parameters, objective, optimiser, stop).
           seq (main_optimise (test_env c) d parameters optimiser stop)
               (main_last_run (test_env c) parameters objective)) s
         = (Inr (), s\<lparr>ext := (if ''skip_last_run'' \<in> dom (cfg s) then ext s else ext s @ [8])\<rparr>)"
  using assms
  by (simp add: main_problem_def main_optimise_def main_last_run_def test_env_def seq_def ret_def
      getitem_def dom_def)

lemma test_main_fresh:
  assumes "c ''output'' = Some (Atom (AStr ''out''))"
    and "c ''objective'' \<noteq> None" "c ''optimiser'' \<noteq> None" "c ''iters'' \<noteq> None" "c ''quiet'' \<noteq> None"
  shows "main (test_env c) empty_state =
           (Inr (), \<lparr> cfg = c,
                      files = [[''out''] \<mapsto> Dir, [''out'', ''config''] \<mapsto> File ''dumped''],
                      ext = (if ''skip_last_run'' \<in> dom c then [] else [8]) \<rparr>)"
proof -
  let ?s1 = "empty_state\<lparr>cfg := c\<rparr>"
  have root: "isdir (files ?s1) []"
    by (simp add: isdir_def)
  have out: "cfg ?s1 ''output'' = Some (Atom (AStr ''out''))"
    using assms(1) by simp
  have none: "files ?s1 ([] @ [''out'']) = None" "files ?s1 ([] @ [''out'', ''config'']) \<noteq> Some Dir"
    by (simp_all add: empty_state_def)
  have od: "main_output_dir (test_env c) ?s1 =
      (Inr ''out'', ?s1\<lparr>files := (files ?s1)([] @ [''out''] \<mapsto> Dir,
           [] @ [''out'', ''config''] \<mapsto> File (safe_dump (test_env c) (cfg ?s1)))\<rparr>)"
    by (rule main_output_dir_fresh [OF out path_of_out root none])
  have dump: "safe_dump (test_env c) = (\<lambda>_. ''dumped'')"
    by (simp add: test_env_def)
  have first: "parse_args (test_env c) = ret ''config.yaml''"
    "parse_config_file (test_env c) = (\<lambda>_. ret c)"
    by (simp_all add: parse_args_def test_env_def)
  from assms obtain vo vp vi vq where
    k: "c ''objective'' = Some vo" "c ''optimiser'' = Some vp" "c ''iters'' = Some vi"
       "c ''quiet'' = Some vq"
    by auto
  have od': "main_output_dir (test_env c) \<lparr>cfg = c, files = Map.empty, ext = []\<rparr> =
      (Inr ''out'', \<lparr>cfg = c,
         files = [[''out''] \<mapsto> Dir, [''out'', ''config''] \<mapsto> File ''dumped''], ext = []\<rparr>)"
    using od by (simp add: empty_state_def dump)
  let ?s2 = "\<lparr>cfg = c, files = [[''out''] \<mapsto> Dir, [''out'', ''config''] \<mapsto> File ''dumped''],
               ext = [] :: nat list\<rparr>"
  have run: "seq (main_problem (test_env c) ''out'') (\<lambda>(parameters, objective, optimiser, stop).
           seq (main_optimise (test_env c) ''out'' parameters optimiser stop)
               (main_last_run (test_env c) parameters objective)) ?s2
         = (Inr (), ?s2\<lparr>ext := (if ''skip_last_run'' \<in> dom (cfg ?s2) then ext ?s2 else ext ?s2 @ [8])\<rparr>)"
    by (rule test_env_run) (simp_all add: k)
  show ?thesis
    unfolding main_unfold first
    by (simp add: seq_ret od' run empty_state_def)
qed


subsection \<open>C1: the last run\<close>

text \<open>
  C1, as stated, fails.  With \<open>skip_last_run: false\<close> in the configuration, \<open>main\<close> runs to
  its end and the objective is never called on the best point, although the value of the
  field is false.
\<close>

theorem C1_last_run_counterexample:
  "\<not> truthy (Atom (ABool False))
   \<and> fst (main (test_env (test_config(''skip_last_run'' \<mapsto> Atom (ABool False)))) empty_state) = Inr ()
   \<and> ext (snd (main (test_env (test_config(''skip_last_run'' \<mapsto> Atom (ABool False)))) empty_state)) = []"
proof -
  let ?c = "test_config(''skip_last_run'' \<mapsto> Atom (ABool False))"
  have "main (test_env ?c) empty_state =
           (Inr (), \<lparr> cfg = ?c,
                      files = [[''out''] \<mapsto> Dir, [''out'', ''config''] \<mapsto> File ''dumped''],
                      ext = (if ''skip_last_run'' \<in> dom ?c then [] else [8]) \<rparr>)"
    by (rule test_main_fresh) (simp_all add: test_config_def)
  then show ?thesis
    by simp
qed

text \<open>
  C1, amended: after \<open>optimise\<close> has returned, the driver calls the objective once on the
  normalised best parameters if and only if the configuration has no key \<open>skip_last_run\<close>;
  it is the presence of the key that decides, whatever its value.  With the key, the last
  block does nothing.  Without it, the block normalises the best parameters and calls the
  objective on the result, once, and fails exactly when one of the two fails.  In the small
  world the whole of \<open>main\<close> ends with the objective called on the point 8, the normalised
  best parameters, exactly when the key is absent, and with no call otherwise.
\<close>

theorem C1_last_run:
  "(''skip_last_run'' \<in> dom (cfg s) \<longrightarrow> main_last_run E ps obj best s = (Inr (), s))
   \<and> (''skip_last_run'' \<notin> dom (cfg s) \<longrightarrow>
        main_last_run E ps obj best s =
          (case normalise E ps best s of
             (Inl e, s1) \<Rightarrow> (Inl e, s1)
           | (Inr x, s1) \<Rightarrow>
               (case call_objective E obj x s1 of
                  (Inl e, s2) \<Rightarrow> (Inl e, s2)
                | (Inr _, s2) \<Rightarrow> (Inr (), s2))))
   \<and> (c ''output'' = Some (Atom (AStr ''out'')) \<and> c ''objective'' \<noteq> None \<and> c ''optimiser'' \<noteq> None
        \<and> c ''iters'' \<noteq> None \<and> c ''quiet'' \<noteq> None \<longrightarrow>
        main (test_env c) empty_state =
          (Inr (), \<lparr> cfg = c,
                     files = [[''out''] \<mapsto> Dir, [''out'', ''config''] \<mapsto> File ''dumped''],
                     ext = (if ''skip_last_run'' \<in> dom c then [] else [8]) \<rparr>))"
proof (intro conjI impI)
  assume "''skip_last_run'' \<in> dom (cfg s)"
  then show "main_last_run E ps obj best s = (Inr (), s)"
    by (simp add: main_last_run_def ret_def)
next
  assume "''skip_last_run'' \<notin> dom (cfg s)"
  then show "main_last_run E ps obj best s =
          (case normalise E ps best s of
             (Inl e, s1) \<Rightarrow> (Inl e, s1)
           | (Inr x, s1) \<Rightarrow>
               (case call_objective E obj x s1 of
                  (Inl e, s2) \<Rightarrow> (Inl e, s2)
                | (Inr _, s2) \<Rightarrow> (Inr (), s2)))"
    by (simp add: main_last_run_def seq_def ret_def split: prod.splits sum.splits)
next
  assume "c ''output'' = Some (Atom (AStr ''out'')) \<and> c ''objective'' \<noteq> None \<and> c ''optimiser'' \<noteq> None
        \<and> c ''iters'' \<noteq> None \<and> c ''quiet'' \<noteq> None"
  then show "main (test_env c) empty_state =
          (Inr (), \<lparr> cfg = c,
                     files = [[''out''] \<mapsto> Dir, [''out'', ''config''] \<mapsto> File ''dumped''],
                     ext = (if ''skip_last_run'' \<in> dom c then [] else [8]) \<rparr>)"
    by (intro test_main_fresh) simp_all
qed

theorem C1_last_run_witness:
  "main (test_env test_config) empty_state =
     (Inr (), \<lparr> cfg = test_config,
                files = [[''out''] \<mapsto> Dir, [''out'', ''config''] \<mapsto> File ''dumped''],
                ext = [8] \<rparr>)
   \<and> main (test_env (test_config(''skip_last_run'' \<mapsto> Atom (ABool True)))) empty_state =
     (Inr (), \<lparr> cfg = test_config(''skip_last_run'' \<mapsto> Atom (ABool True)),
                files = [[''out''] \<mapsto> Dir, [''out'', ''config''] \<mapsto> File ''dumped''],
                ext = [] \<rparr>)
   \<and> main_last_run (test_env test_config) 1 2 7 (empty_state\<lparr>cfg := test_config\<rparr>)
       = (Inr (), empty_state\<lparr>cfg := test_config, ext := [8]\<rparr>)
   \<and> main_last_run (test_env test_config) 1 2 7
         (empty_state\<lparr>cfg := test_config(''skip_last_run'' \<mapsto> Atom (ABool True))\<rparr>)
       = (Inr (), empty_state\<lparr>cfg := test_config(''skip_last_run'' \<mapsto> Atom (ABool True))\<rparr>)"
proof -
  note t = C1_last_run [where E = "test_env test_config" and ps = 1 and obj = 2 and best = 7]
  have a: "main (test_env test_config) empty_state =
     (Inr (), \<lparr> cfg = test_config,
                files = [[''out''] \<mapsto> Dir, [''out'', ''config''] \<mapsto> File ''dumped''],
                ext = [8] \<rparr>)"
    using t [where c = test_config, THEN conjunct2, THEN conjunct2]
    by (simp add: test_config_def dom_def)
  have b: "main (test_env (test_config(''skip_last_run'' \<mapsto> Atom (ABool True)))) empty_state =
     (Inr (), \<lparr> cfg = test_config(''skip_last_run'' \<mapsto> Atom (ABool True)),
                files = [[''out''] \<mapsto> Dir, [''out'', ''config''] \<mapsto> File ''dumped''],
                ext = [] \<rparr>)"
    using t [where c = "test_config(''skip_last_run'' \<mapsto> Atom (ABool True))",
        THEN conjunct2, THEN conjunct2]
    by (simp add: test_config_def dom_def)
  have c: "main_last_run (test_env test_config) 1 2 7 (empty_state\<lparr>cfg := test_config\<rparr>)
       = (Inr (), empty_state\<lparr>cfg := test_config, ext := [8]\<rparr>)"
    using t [where s = "empty_state\<lparr>cfg := test_config\<rparr>", THEN conjunct2, THEN conjunct1]
    by (simp add: test_config_def dom_def test_env_def ret_def empty_state_def)
  have d: "main_last_run (test_env test_config) 1 2 7
         (empty_state\<lparr>cfg := test_config(''skip_last_run'' \<mapsto> Atom (ABool True))\<rparr>)
       = (Inr (), empty_state\<lparr>cfg := test_config(''skip_last_run'' \<mapsto> Atom (ABool True))\<rparr>)"
    using t [where s = "empty_state\<lparr>cfg := test_config(''skip_last_run'' \<mapsto> Atom (ABool True))\<rparr>",
        THEN conjunct1]
    by simp
  from a b c d show ?thesis
    by blast
qed

subsection \<open>C7: the output directory and the copy of the configuration come first\<close>



subsection \<open>C8: an output directory that exists is destroyed\<close>



end
